theory Spec2Isabelle
  imports Main "HOL-Library.Word"
begin

section \<open>Local discovery (lib/discover/local.go)\<close>

text \<open>
  A shallow embedding of the local discovery client: the address helpers
  (\<open>addrToAddr\<close>, \<open>resolveAddrs\<close>), the outgoing announcement
  (\<open>announcementPkt\<close>), the receive loop (\<open>recvAnnouncements\<close>), the registration
  of a peer (\<open>registerDevice\<close>) and \<open>Lookup\<close>.

  Go's \<open>[]byte\<close> is a list of 8-bit words, a Go \<open>string\<close> is a list of bytes written
  as an Isabelle \<open>string\<close>, Go's \<open>int\<close> is an \<open>int\<close>, and the fixed-width conversions
  the code performs are written out.
\<close>

type_synonym byte = "8 word"

subsection \<open>Errors\<close>

text \<open>
  Go's \<open>error\<close> values. \<open>io.EOF\<close> and \<open>ErrIncorrectMagic\<close> are the two the file
  names; every other error is \<open>OtherError\<close> with its message. A \<open>nil\<close> error is
  \<open>None\<close> of \<open>error option\<close>.
\<close>

datatype error = EOF | ErrIncorrectMagic | OtherError string

subsection \<open>Time\<close>

text \<open>
  A \<open>time.Time\<close> is an instant in nanoseconds and a \<open>time.Duration\<close> an \<open>int64\<close>
  count of nanoseconds. \<open>Time.Sub\<close> saturates at the least and greatest
  \<open>Duration\<close>; \<open>time.Since t\<close> is \<open>time.Now().Sub(t)\<close>, the clock reading being
  an argument of the model.
\<close>

type_synonym Time = int
type_synonym Duration = int

definition minDuration :: Duration where
  "minDuration = - (2 ^ 63)"

definition maxDuration :: Duration where
  "maxDuration = 2 ^ 63 - 1"

definition Time_Sub :: "Time \<Rightarrow> Time \<Rightarrow> Duration" where
  "Time_Sub t u =
     (if t - u < minDuration then minDuration
      else if maxDuration < t - u then maxDuration
      else t - u)"

definition time_Since :: "Time \<Rightarrow> Time \<Rightarrow> Duration" where
  "time_Since now t = Time_Sub now t"

definition Millisecond :: Duration where
  "Millisecond = 1000000"

definition Second :: Duration where
  "Second = 1000 * Millisecond"

definition BroadcastInterval :: Duration where
  "BroadcastInterval = 30 * Second"

definition CacheLifeTime :: Duration where
  "CacheLifeTime = 3 * BroadcastInterval"

subsection \<open>Integer conversions and formatting verbs\<close>

text \<open>
  Go's integer division truncates towards zero (\<open>quo\<close>); the conversion
  \<open>int32(x)\<close> keeps the low 32 bits, read as two's complement.
\<close>

definition quo :: "int \<Rightarrow> int \<Rightarrow> int" where
  "quo a b = sgn a * sgn b * (\<bar>a\<bar> div \<bar>b\<bar>)"

definition int32 :: "int \<Rightarrow> int" where
  "int32 x = (x + 2 ^ 31) mod 2 ^ 32 - 2 ^ 31"

text \<open>
  \<open>fmt\<close>'s verb \<open>%d\<close> prints an integer in base 10, with a minus sign when it is
  negative.
\<close>

definition digit_char :: "nat \<Rightarrow> char" where
  "digit_char d = char_of (48 + d)"

fun dec_digits :: "nat \<Rightarrow> string" where
  "dec_digits n =
     (if n < 10 then [digit_char n]
      else dec_digits (n div 10) @ [digit_char (n mod 10)])"

declare dec_digits.simps [simp del]

definition fmt_d :: "int \<Rightarrow> string" where
  "fmt_d i = (if i < 0 then CHR ''-'' # dec_digits (nat (- i)) else dec_digits (nat i))"

text \<open>
  \<open>fmt\<close>'s verb \<open>%c\<close> prints the character whose Unicode code point is the integer:
  its UTF-8 encoding (\<open>utf8.EncodeRune\<close>), with U+FFFD for a value that is no code
  point (negative, above U+10FFFF, or a surrogate).
\<close>

definition RuneError :: int where
  "RuneError = 0xFFFD"

definition MaxRune :: int where
  "MaxRune = 0x10FFFF"

definition utf8_EncodeRune :: "int \<Rightarrow> string" where
  "utf8_EncodeRune r0 =
     (let r = (if r0 < 0 \<or> MaxRune < r0 \<or> (0xD800 \<le> r0 \<and> r0 \<le> 0xDFFF)
               then RuneError else r0)
      in if r \<le> 0x7F then [char_of r]
         else if r \<le> 0x7FF then
           [char_of (0xC0 + r div 64), char_of (0x80 + r mod 64)]
         else if r \<le> 0xFFFF then
           [char_of (0xE0 + r div 4096), char_of (0x80 + (r div 64) mod 64),
            char_of (0x80 + r mod 64)]
         else
           [char_of (0xF0 + r div 262144), char_of (0x80 + (r div 4096) mod 64),
            char_of (0x80 + (r div 64) mod 64), char_of (0x80 + r mod 64)])"

definition fmt_c :: "int \<Rightarrow> string" where
  "fmt_c i = utf8_EncodeRune i"

subsection \<open>net.IP and net.TCPAddr\<close>

text \<open>
  \<open>net.IP\<close> is a byte slice of length 4 (IPv4), 16 (IPv6) or anything else (no
  address). The methods below are those of Go's package \<open>net\<close> that the file
  calls.
\<close>

type_synonym IP = "byte list"

record TCPAddr =
  IP :: IP
  Port :: int
  Zone :: string

definition v4InV6Prefix :: "byte list" where
  "v4InV6Prefix = [0, 0, 0, 0, 0, 0, 0, 0, 0, 0, 0xff, 0xff]"

definition IPv4zero :: IP where
  "IPv4zero = v4InV6Prefix @ [0, 0, 0, 0]"

definition IPv6unspecified :: IP where
  "IPv6unspecified = replicate 16 0"

definition IP_Equal :: "IP \<Rightarrow> IP \<Rightarrow> bool" where
  "IP_Equal ip x =
     (if length ip = length x then ip = x
      else if length ip = 4 \<and> length x = 16 then
        take 12 x = v4InV6Prefix \<and> ip = drop 12 x
      else if length ip = 16 \<and> length x = 4 then
        take 12 ip = v4InV6Prefix \<and> drop 12 ip = x
      else False)"

definition IsUnspecified :: "IP \<Rightarrow> bool" where
  "IsUnspecified ip = (IP_Equal ip IPv4zero \<or> IP_Equal ip IPv6unspecified)"

definition To4 :: "IP \<Rightarrow> IP option" where
  "To4 ip =
     (if length ip = 4 then Some ip
      else if length ip = 16 \<and> take 10 ip = replicate 10 0
              \<and> ip ! 10 = 0xff \<and> ip ! 11 = 0xff
      then Some (drop 12 ip)
      else None)"

definition To16 :: "IP \<Rightarrow> IP option" where
  "To16 ip =
     (if length ip = 4 then Some (v4InV6Prefix @ ip)
      else if length ip = 16 then Some ip
      else None)"

text \<open>
  \<open>IP.String\<close>: dotted decimal for an IPv4 address; for another 16-byte address
  the eight 16-bit groups in lower-case hexadecimal without leading zeros,
  separated by colons, the first longest run of two or more zero groups written
  \<open>::\<close>. \<open>addrToAddr\<close> calls it on the results of \<open>To4\<close> and \<open>To16\<close> only,
  which have 4 and 16 bytes; the first and the last case of \<open>IP_String\<close> are
  there for completeness.
\<close>

definition hex_char :: "nat \<Rightarrow> char" where
  "hex_char d = (if d < 10 then char_of (48 + d) else char_of (87 + d))"

fun hex_digits :: "nat \<Rightarrow> string" where
  "hex_digits n =
     (if n < 16 then [hex_char n]
      else hex_digits (n div 16) @ [hex_char (n mod 16)])"

declare hex_digits.simps [simp del]

fun groups16 :: "byte list \<Rightarrow> nat list" where
  "groups16 (a # b # rest) = (unat a * 256 + unat b) # groups16 rest"
| "groups16 _ = []"

text \<open>The length of the run of zero groups at the head of a list.\<close>

fun zero_run :: "nat list \<Rightarrow> nat" where
  "zero_run [] = 0"
| "zero_run (g # gs) = (if g = 0 then Suc (zero_run gs) else 0)"

text \<open>
  The scan for the longest run: \<open>i\<close> is the index of the head of the list, and
  \<open>(e0, n)\<close> the start and length of the best run so far (\<open>n = 0\<close>: none). A run
  replaces the best only when it is strictly longer, and the scan goes on after
  the run.
\<close>

function longest_run :: "nat \<Rightarrow> nat list \<Rightarrow> nat \<times> nat \<Rightarrow> nat \<times> nat" where
  "longest_run i [] best = best"
| "longest_run i (g # gs) best =
     (let k = zero_run (g # gs) in
      if 0 < k \<and> snd best < k then
        longest_run (i + k + 1) (drop k gs) (i, k)
      else longest_run (i + 1) gs best)"
  by pat_completeness auto
termination
  by (relation "measure (\<lambda>(i, gs, best). length gs)") auto

fun join_groups :: "nat list \<Rightarrow> string" where
  "join_groups [] = []"
| "join_groups [g] = hex_digits g"
| "join_groups (g # gs) = hex_digits g @ CHR '':'' # join_groups gs"

definition ipv6_text :: "nat list \<Rightarrow> string" where
  "ipv6_text gs =
     (let (e0, n) = longest_run 0 gs (0, 0) in
      if n < 2 then join_groups gs
      else join_groups (take e0 gs) @ ''::'' @ join_groups (drop (e0 + n) gs))"

definition IP_String :: "IP \<Rightarrow> string" where
  "IP_String ip =
     (if length ip = 0 then ''<nil>''
      else case To4 ip of
        Some p4 \<Rightarrow>
          dec_digits (unat (p4 ! 0)) @ ''.'' @ dec_digits (unat (p4 ! 1)) @ ''.'' @
          dec_digits (unat (p4 ! 2)) @ ''.'' @ dec_digits (unat (p4 ! 3))
      | None \<Rightarrow> if length ip \<noteq> 16 then ''?'' else ipv6_text (groups16 ip))"

subsection \<open>addrToAddr\<close>

text \<open>The argument is the \<open>net.TCPAddr\<close> that the pointer refers to.\<close>

definition addrToAddr :: "TCPAddr \<Rightarrow> string" where
  "addrToAddr addr =
     (if length (IP addr) = 0 \<or> IsUnspecified (IP addr) then
        '':'' @ fmt_c (Port addr)
      else case To4 (IP addr) of
        Some bs \<Rightarrow> IP_String bs @ '':'' @ fmt_c (Port addr)
      | None \<Rightarrow>
        (case To16 (IP addr) of
           Some bs \<Rightarrow> ''['' @ IP_String bs @ '']:'' @ fmt_c (Port addr)
         | None \<Rightarrow> ''''))"

subsection \<open>Device identifiers\<close>

text \<open>
  \<open>protocol.DeviceID\<close> is the array type \<open>[32]byte\<close>: a list of bytes of length 32.
  \<open>copy_id\<close> is \<open>var id protocol.DeviceID; copy(id[:], b)\<close>: \<open>copy\<close> moves
  \<open>min (len id) (len b)\<close> bytes into the zero-valued array.
\<close>

type_synonym DeviceID = "byte list"

definition DeviceID_len :: nat where
  "DeviceID_len = 32"

definition copy_id :: "byte list \<Rightarrow> DeviceID" where
  "copy_id b = take DeviceID_len b @ replicate (DeviceID_len - length b) 0"

text \<open>
  \<open>protocol.DeviceIDFromBytes\<close>, of the package github.com/syncthing/protocol,
  panics when the slice is not 32 bytes long and copies it otherwise. \<open>None\<close> is
  the panic.
\<close>

definition DeviceIDFromBytes :: "byte list \<Rightarrow> DeviceID option" where
  "DeviceIDFromBytes bs = (if length bs \<noteq> DeviceID_len then None else Some (copy_id bs))"

subsection \<open>The announcement and the cache\<close>

text \<open>
  Modelled from the spec: the types \<open>Relay\<close>, \<open>Device\<close>, \<open>Announce\<close> and
  \<open>CacheEntry\<close> are declared in files of the package that are not among the
  sources. The records have the fields that local.go reads and writes
  (RelayDescriptor, Announcement and ReachabilityRecord of the spec's data model).
  \<open>Latency\<close> is an \<open>int32\<close>, \<open>Magic\<close> a \<open>uint32\<close>.
\<close>

record Relay =
  URL :: string
  Latency :: int

record Device =
  ID :: "byte list"
  Addresses :: "string list"
  Relays :: "Relay list"

record Announce =
  Magic :: nat
  This :: Device

record CacheEntry =
  Direct :: "string list"
  Relays_ce :: "Relay list"
  when_ce :: Time
  found :: bool

text \<open>
  Modelled from the spec: the cache (\<open>newCache\<close>, \<open>Get\<close>, \<open>Set\<close>) is not among the
  sources. Section 4.2: \<open>get(id)\<close> returns the record and whether one was ever
  written; \<open>set(id, record)\<close> is an unconditional overwrite. Go's pair
  \<open>(CacheEntry, bool)\<close> is an \<open>option\<close>.
\<close>

type_synonym cache = "DeviceID \<rightharpoonup> CacheEntry"

definition newCache :: cache where
  "newCache = Map.empty"

definition cache_Get :: "cache \<Rightarrow> DeviceID \<Rightarrow> CacheEntry option" where
  "cache_Get m device = m device"

definition cache_Set :: "cache \<Rightarrow> DeviceID \<Rightarrow> CacheEntry \<Rightarrow> cache" where
  "cache_Set m device ce = m(device \<mapsto> ce)"

subsection \<open>The client's state\<close>

text \<open>
  The payload of a \<open>DeviceDiscovered\<close> event. The code logs \<open>id.String()\<close>, a
  function of the identifier; the model keeps the identifier.
\<close>

record Event =
  device_ev :: DeviceID
  addrs_ev :: "string list"
  relays_ev :: "Relay list"

text \<open>
  The part of \<open>localClient\<close> that the receive path and \<open>Lookup\<close> use, with the two
  things the receive path writes outside the struct: \<open>events\<close> is what has been
  logged to \<open>events.Default\<close>, and \<open>forcedBcastTick\<close> the values sent on the channel
  of that name, both oldest first. A send on the channel blocks until the send
  loop takes the value; the model records the send.
\<close>

record localClient =
  myID :: DeviceID
  cache :: cache
  events :: "Event list"
  forcedBcastTick :: "Time list"

subsection \<open>Library functions and the decoder\<close>

text \<open>
  \<open>url.URL\<close>, with the fields of Go's type. \<open>User\<close> is the optional user name and
  optional password.
\<close>

record url_URL =
  Scheme :: string
  Opaque :: string
  User :: "(string \<times> string option) option"
  Host :: string
  Path :: string
  RawQuery :: string
  Fragment :: string

text \<open>
  Modelled from the spec: the decoder \<open>Announce.UnmarshalXDR\<close> is generated code
  of the package that is not among the sources. The spec gives it the shape
  \<open>unmarshal(bytes) -> (Announcement, error)\<close>, and it is a parameter of the
  model with that shape: the announcement is the receiver as the decoder left
  it, also when it returns an error.

  The other fields are what the code calls in Go's library and the model does
  not define, \<open>url.Parse\<close>, \<open>net.ResolveTCPAddr "tcp"\<close> (which may ask the
  resolver), \<open>net.SplitHostPort\<close> and \<open>URL.String\<close>, and the package variable
  \<open>debug\<close>, which is set outside the sources.
\<close>

record extern =
  url_Parse :: "string \<Rightarrow> error + url_URL"
  net_ResolveTCPAddr :: "string \<Rightarrow> error + TCPAddr"
  net_SplitHostPort :: "string \<Rightarrow> error + (string \<times> string)"
  URL_String :: "url_URL \<Rightarrow> string"
  UnmarshalXDR :: "byte list \<Rightarrow> Announce \<times> error option"
  debug :: bool

subsection \<open>Lookup\<close>

text \<open>
  \<open>now\<close> is the clock reading of \<open>time.Since\<close>. The results \<open>direct\<close>, \<open>relays\<close>
  and \<open>err\<close> are named results: they start as \<open>nil\<close> and \<open>err\<close> is never assigned.
\<close>

definition Lookup :: "localClient \<Rightarrow> Time \<Rightarrow> DeviceID \<Rightarrow> string list \<times> Relay list \<times> error option" where
  "Lookup c now dev =
     (case cache_Get (cache c) dev of
        Some ce \<Rightarrow>
          if time_Since now (when_ce ce) < CacheLifeTime
          then (Direct ce, Relays_ce ce, None)
          else ([], [], None)
      | None \<Rightarrow> ([], [], None))"

subsection \<open>announcementPkt\<close>

text \<open>
  The loop over \<open>c.relayStat.Relays()\<close>, with the slice \<open>relays\<close> as accumulator.
  \<open>RelayStatus\<close> returns the latency and whether there is one.
\<close>

fun relays_loop :: "(string \<Rightarrow> Duration \<times> bool) \<Rightarrow> string list \<Rightarrow> Relay list \<Rightarrow> Relay list" where
  "relays_loop RelayStatus [] relays = relays"
| "relays_loop RelayStatus (relay # rest) relays =
     (case RelayStatus relay of
        (latency, ok) \<Rightarrow>
          if ok then
            relays_loop RelayStatus rest
              (relays @ [\<lparr>URL = relay, Latency = int32 (quo latency Millisecond)\<rparr>])
          else relays_loop RelayStatus rest relays)"

text \<open>
  \<open>AnnouncementMagic\<close> is a constant declared outside the sources, \<open>AllAddresses\<close>
  the result of \<open>c.addrList.AllAddresses()\<close> and \<open>RelayList\<close> that of
  \<open>c.relayStat.Relays()\<close>.
\<close>

definition announcementPkt ::
  "nat \<Rightarrow> DeviceID \<Rightarrow> string list \<Rightarrow> string list \<Rightarrow> (string \<Rightarrow> Duration \<times> bool) \<Rightarrow> Announce" where
  "announcementPkt AnnouncementMagic my AllAddresses RelayList RelayStatus =
     \<lparr>Magic = AnnouncementMagic,
      This = \<lparr>ID = my, Addresses = AllAddresses,
              Relays = relays_loop RelayStatus RelayList []\<rparr>\<rparr>"

subsection \<open>registerDevice\<close>

text \<open>
  The loop over \<open>device.Addresses\<close>, with the slice \<open>validAddresses\<close> as accumulator.
  \<open>src\<close> is \<open>src.String()\<close>, the only use the code makes of the source address.
\<close>

fun validAddresses_loop :: "extern \<Rightarrow> string \<Rightarrow> string list \<Rightarrow> string list \<Rightarrow> string list" where
  "validAddresses_loop E src [] validAddresses = validAddresses"
| "validAddresses_loop E src (addr # rest) validAddresses =
     (case url_Parse E addr of
        Inl err \<Rightarrow> validAddresses_loop E src rest validAddresses
      | Inr u \<Rightarrow>
          (case net_ResolveTCPAddr E (Host u) of
             Inl err \<Rightarrow> validAddresses_loop E src rest validAddresses
           | Inr tcpAddr \<Rightarrow>
               if length (IP tcpAddr) = 0 \<or> IsUnspecified (IP tcpAddr) then
                 (case net_SplitHostPort E src of
                    Inl err \<Rightarrow> validAddresses_loop E src rest validAddresses
                  | Inr (host, port) \<Rightarrow>
                      validAddresses_loop E src rest
                        (validAddresses @
                           [URL_String E (u\<lparr>Host := host @ '':'' @ fmt_d (Port tcpAddr)\<rparr>)]))
               else validAddresses_loop E src rest (validAddresses @ [addr])))"

text \<open>
  \<open>t_since\<close> is the clock reading of \<open>time.Since\<close> and \<open>t_now\<close> that of the
  \<open>time.Now()\<close> stored in the entry. The result is \<open>isNewDevice\<close> and the client
  after the call.
\<close>

definition registerDevice ::
  "extern \<Rightarrow> localClient \<Rightarrow> string \<Rightarrow> Device \<Rightarrow> Time \<Rightarrow> Time \<Rightarrow> bool \<times> localClient" where
  "registerDevice E c src dev t_since t_now =
     (let id = copy_id (ID dev);
          isNewDevice =
            (case cache_Get (cache c) id of
               None \<Rightarrow> True
             | Some ce \<Rightarrow> CacheLifeTime < time_Since t_since (when_ce ce));
          validAddresses = validAddresses_loop E src (Addresses dev) [];
          c1 = c\<lparr>cache := cache_Set (cache c) id
                 \<lparr>Direct = validAddresses, Relays_ce = Relays dev,
                  when_ce = t_now, found = True\<rparr>\<rparr>;
          c2 = (if isNewDevice then
                  c1\<lparr>events := events c1 @
                     [\<lparr>device_ev = id, addrs_ev = Addresses dev, relays_ev = Relays dev\<rparr>]\<rparr>
                else c1)
      in (isNewDevice, c2))"

subsection \<open>recvAnnouncements\<close>

text \<open>
  What one iteration of the loop takes from outside: the datagram and its source
  address (\<open>b.Recv()\<close>) and the three clock readings it may make, in
  \<open>registerDevice\<close> (\<open>since_r\<close>, \<open>when_r\<close>) and for the value sent on
  \<open>forcedBcastTick\<close> (\<open>tick_r\<close>).

  The result of an iteration is the client after it, or \<open>None\<close> when the
  iteration panics: under \<open>debug\<close> the second log line evaluates
  \<open>protocol.DeviceIDFromBytes(pkt.This.ID)\<close>. The first log line (the dump of a
  datagram that did not decode) cannot panic; what is written to the log is not
  part of the model.
\<close>

record received =
  buf_r :: "byte list"
  addr_r :: string
  since_r :: Time
  when_r :: Time
  tick_r :: Time

definition recvAnnouncements_body :: "extern \<Rightarrow> localClient \<Rightarrow> received \<Rightarrow> localClient option" where
  "recvAnnouncements_body E c r =
     (case UnmarshalXDR E (buf_r r) of
        (pkt, err) \<Rightarrow>
          if err \<noteq> None \<and> err \<noteq> Some EOF then Some c
          else if debug E \<and> DeviceIDFromBytes (ID (This pkt)) = None then None
          else
            (case (if ID (This pkt) \<noteq> myID c
                   then registerDevice E c (addr_r r) (This pkt) (since_r r) (when_r r)
                   else (False, c)) of
               (newDevice, c1) \<Rightarrow>
                 if newDevice
                 then Some (c1\<lparr>forcedBcastTick := forcedBcastTick c1 @ [tick_r r]\<rparr>)
                 else Some c1))"

text \<open>
  The loop returns only by a panic. The model runs it over the datagrams
  received so far: the result is the client after the last of them, or \<open>None\<close>
  when an iteration panicked.
\<close>

fun recvAnnouncements :: "extern \<Rightarrow> localClient \<Rightarrow> received list \<Rightarrow> localClient option" where
  "recvAnnouncements E c [] = Some c"
| "recvAnnouncements E c (r # rs) =
     (case recvAnnouncements_body E c r of
        None \<Rightarrow> None
      | Some c1 \<Rightarrow> recvAnnouncements E c1 rs)"

subsection \<open>resolveAddrs\<close>

fun resolveAddrs_loop :: "extern \<Rightarrow> string list \<Rightarrow> string list \<Rightarrow> string list" where
  "resolveAddrs_loop E [] raddrs = raddrs"
| "resolveAddrs_loop E (addrStr # rest) raddrs =
     (case url_Parse E addrStr of
        Inl err \<Rightarrow> resolveAddrs_loop E rest raddrs
      | Inr uri \<Rightarrow>
          (case net_ResolveTCPAddr E (Host uri) of
             Inl err \<Rightarrow> resolveAddrs_loop E rest raddrs
           | Inr addrRes \<Rightarrow>
               (let a = addrToAddr addrRes in
                if 0 < length a
                then resolveAddrs_loop E rest (raddrs @ [URL_String E (uri\<lparr>Host := a\<rparr>)])
                else resolveAddrs_loop E rest raddrs)))"

definition resolveAddrs :: "extern \<Rightarrow> string list \<Rightarrow> string list" where
  "resolveAddrs E addrs = resolveAddrs_loop E addrs []"

subsection \<open>The normalisation of one address, as the spec words it\<close>

text \<open>
  Section 4.1 of the spec, for one announced address and the host portion
  \<open>host\<close> of the packet's source address: an address that does not parse or
  does not resolve is dropped; one whose IP is empty or unspecified gets \<open>host\<close>
  and keeps its port; any other is kept as announced. This definition follows
  the spec; \<open>validAddresses_loop\<close> is the code, and the two are compared below.
\<close>

definition spec_normalize :: "extern \<Rightarrow> string \<Rightarrow> string \<Rightarrow> string list" where
  "spec_normalize E host announced =
     (case url_Parse E announced of
        Inl err \<Rightarrow> []
      | Inr u \<Rightarrow>
          (case net_ResolveTCPAddr E (Host u) of
             Inl err \<Rightarrow> []
           | Inr tcpAddr \<Rightarrow>
               if length (IP tcpAddr) = 0 \<or> IsUnspecified (IP tcpAddr)
               then [URL_String E (u\<lparr>Host := host @ '':'' @ fmt_d (Port tcpAddr)\<rparr>)]
               else [announced]))"

subsection \<open>Values for the examples\<close>

text \<open>
  Two nodes: A, whose announcement is received, and B, the receiving client.
\<close>

definition id_A :: DeviceID where
  "id_A = replicate 32 0xA1"

definition id_B :: DeviceID where
  "id_B = replicate 32 0xB2"

definition client_B :: localClient where
  "client_B = \<lparr>myID = id_B, cache = newCache, events = [], forcedBcastTick = []\<rparr>"

definition tcp_url :: "string \<Rightarrow> url_URL" where
  "tcp_url h = \<lparr>Scheme = ''tcp'', Opaque = [], User = None, Host = h, Path = [],
               RawQuery = [], Fragment = []\<rparr>"

definition device_A :: Device where
  "device_A = \<lparr>ID = id_A,
               Addresses = [''tcp://0.0.0.0:22000'', ''%zz'', ''tcp://nohost.invalid:22000'',
                            ''tcp://192.0.2.7:22000'', ''tcp://:22001''],
               Relays = [\<lparr>URL = ''relay://192.0.2.9:443'', Latency = 12\<rparr>]\<rparr>"

definition zero_Announce :: Announce where
  "zero_Announce = \<lparr>Magic = 0, This = \<lparr>ID = [], Addresses = [], Relays = []\<rparr>\<rparr>"

text \<open>
  The datagrams of the examples. Only the decoder reads a datagram, so each
  stands for the bytes that decode as \<open>example_extern\<close> says.
\<close>

definition datagram_A :: "byte list" where
  "datagram_A = [0xA1]"

definition datagram_B :: "byte list" where
  "datagram_B = [0xB2]"

definition datagram_bad :: "byte list" where
  "datagram_bad = [0xFF]"

text \<open>
  The answers of the library and of the decoder on the strings and datagrams of
  the examples: what \<open>url.Parse\<close>, \<open>net.ResolveTCPAddr\<close> and
  \<open>net.SplitHostPort\<close> return for them (\<open>ResolveTCPAddr\<close> gives an IPv4 address in
  its 16-byte form, and no IP for an empty host), \<open>URL.String\<close> for a URL that
  has a scheme, a host and a path only, and a decoder that reads A's and B's
  announcements, reports \<open>io.EOF\<close> on the empty datagram, having read nothing,
  and another error on \<open>datagram_bad\<close>. Every other argument is answered with an
  error; the examples use none. \<open>debug\<close> is off, as it is unless asked for.
\<close>

definition example_extern :: extern where
  "example_extern =
     \<lparr>url_Parse = (\<lambda>s.
        if s = ''tcp://0.0.0.0:22000'' then Inr (tcp_url ''0.0.0.0:22000'')
        else if s = ''tcp://192.0.2.7:22000'' then Inr (tcp_url ''192.0.2.7:22000'')
        else if s = ''tcp://nohost.invalid:22000'' then Inr (tcp_url ''nohost.invalid:22000'')
        else if s = ''tcp://:22001'' then Inr (tcp_url '':22001'')
        else Inl (OtherError ''invalid URL'')),
      net_ResolveTCPAddr = (\<lambda>h.
        if h = ''0.0.0.0:22000'' then Inr \<lparr>IP = IPv4zero, Port = 22000, Zone = []\<rparr>
        else if h = ''192.0.2.7:22000''
          then Inr \<lparr>IP = v4InV6Prefix @ [192, 0, 2, 7], Port = 22000, Zone = []\<rparr>
        else if h = '':22001'' then Inr \<lparr>IP = [], Port = 22001, Zone = []\<rparr>
        else Inl (OtherError ''no such host'')),
      net_SplitHostPort = (\<lambda>s.
        if s = ''192.0.2.5:54321'' then Inr (''192.0.2.5'', ''54321'')
        else Inl (OtherError ''missing port in address'')),
      URL_String = (\<lambda>u. Scheme u @ ''://'' @ Host u @ Path u),
      UnmarshalXDR = (\<lambda>b.
        if b = datagram_A then (\<lparr>Magic = 0x9D79BC40, This = device_A\<rparr>, None)
        else if b = datagram_B
          then (\<lparr>Magic = 0x9D79BC40,
                 This = \<lparr>ID = id_B, Addresses = [''tcp://0.0.0.0:22000''], Relays = []\<rparr>\<rparr>, None)
        else if b = [] then (zero_Announce, Some EOF)
        else (zero_Announce, Some (OtherError ''unexpected EOF''))),
      debug = False\<rparr>"

text \<open>A datagram from 192.0.2.5:54321, handled with the clock at \<open>t\<close>.\<close>

definition recv_at :: "byte list \<Rightarrow> Time \<Rightarrow> received" where
  "recv_at b t = \<lparr>buf_r = b, addr_r = ''192.0.2.5:54321'', since_r = t, when_r = t, tick_r = t\<rparr>"

text \<open>A relay status with one measured relay, one unmeasured, and one measured at 2^31 ms.\<close>

definition example_RelayStatus :: "string \<Rightarrow> Duration \<times> bool" where
  "example_RelayStatus relay =
     (if relay = ''relay://192.0.2.9:443'' then (12345678, True)
      else if relay = ''relay://192.0.2.10:443'' then (2147483648 * Millisecond, True)
      else (0, False))"




section \<open>Properties\<close>

subsection \<open>Auxiliary facts\<close>

lemma CacheLifeTime_val: "CacheLifeTime = 90000000000"
  by (simp add: CacheLifeTime_def BroadcastInterval_def Second_def Millisecond_def)

lemma time_Since_less: "time_Since now t < CacheLifeTime \<longleftrightarrow> now - t < CacheLifeTime"
  by (simp add: time_Since_def Time_Sub_def minDuration_def maxDuration_def CacheLifeTime_val)

lemma time_Since_greater: "CacheLifeTime < time_Since now t \<longleftrightarrow> CacheLifeTime < now - t"
  by (simp add: time_Since_def Time_Sub_def minDuration_def maxDuration_def CacheLifeTime_val)

lemma Lookup_fresh:
  "cache_Get (cache c) dev = Some ce \<Longrightarrow> now < when_ce ce + CacheLifeTime \<Longrightarrow>
   Lookup c now dev = (Direct ce, Relays_ce ce, None)"
  by (simp add: Lookup_def time_Since_less)

lemma Lookup_stale:
  "cache_Get (cache c) dev = Some ce \<Longrightarrow> when_ce ce + CacheLifeTime \<le> now \<Longrightarrow>
   Lookup c now dev = ([], [], None)"
  by (simp add: Lookup_def time_Since_less)

lemma Lookup_unknown:
  "cache_Get (cache c) dev = None \<Longrightarrow> Lookup c now dev = ([], [], None)"
  by (simp add: Lookup_def)

lemma validAddresses_loop_acc:
  "validAddresses_loop E src as acc = acc @ validAddresses_loop E src as []"
proof (induction as arbitrary: acc)
  case Nil
  show ?case by simp
next
  case (Cons a as)
  have IH: "\<And>acc. validAddresses_loop E src as acc = acc @ validAddresses_loop E src as []"
    by (rule Cons.IH)
  show ?case
  proof (cases "url_Parse E a")
    case (Inl e)
    then show ?thesis using IH[of acc] by simp
  next
    case (Inr u)
    note u = Inr
    show ?thesis
    proof (cases "net_ResolveTCPAddr E (Host u)")
      case (Inl e)
      then show ?thesis using u IH[of acc] by simp
    next
      case (Inr ta)
      note ta = Inr
      show ?thesis
      proof (cases "length (IP ta) = 0 \<or> IsUnspecified (IP ta)")
        case False
        then show ?thesis
          using u ta IH[of "acc @ [a]"] IH[of "[a]"] by simp
      next
        case True
        show ?thesis
        proof (cases "net_SplitHostPort E src")
          case (Inl e)
          then show ?thesis using u ta True IH[of acc] by simp
        next
          case (Inr hp)
          obtain host port where hp: "hp = (host, port)" by (cases hp)
          let ?x = "URL_String E (u\<lparr>Host := host @ '':'' @ fmt_d (Port ta)\<rparr>)"
          show ?thesis
            using u ta True Inr hp IH[of "acc @ [?x]"] IH[of "[?x]"] by simp
        qed
      qed
    qed
  qed
qed

lemma relays_loop_acc:
  "relays_loop RS rl acc = acc @ relays_loop RS rl []"
proof (induction rl arbitrary: acc)
  case Nil
  show ?case by simp
next
  case (Cons a rl)
  have IH: "\<And>acc. relays_loop RS rl acc = acc @ relays_loop RS rl []"
    by (rule Cons.IH)
  obtain latency ok where st: "RS a = (latency, ok)" by (cases "RS a")
  let ?x = "\<lparr>URL = a, Latency = int32 (quo latency Millisecond)\<rparr>"
  show ?case
    using st IH[of acc] IH[of "acc @ [?x]"] IH[of "[?x]"] by simp
qed

lemma registerDevice_cache:
  "cache (snd (registerDevice E c src dev t0 t1)) =
     (cache c)(copy_id (ID dev) \<mapsto>
        \<lparr>Direct = validAddresses_loop E src (Addresses dev) [], Relays_ce = Relays dev,
         when_ce = t1, found = True\<rparr>)"
  by (simp add: registerDevice_def Let_def cache_Set_def)

lemma registerDevice_new:
  "fst (registerDevice E c src dev t0 t1) =
     (case cache c (copy_id (ID dev)) of None \<Rightarrow> True
      | Some ce \<Rightarrow> CacheLifeTime < t0 - when_ce ce)"
  by (simp add: registerDevice_def Let_def cache_Get_def time_Since_greater split: option.split)

lemma registerDevice_events:
  "events (snd (registerDevice E c src dev t0 t1)) =
     (if fst (registerDevice E c src dev t0 t1)
      then events c @ [\<lparr>device_ev = copy_id (ID dev), addrs_ev = Addresses dev, relays_ev = Relays dev\<rparr>]
      else events c)"
  by (simp add: registerDevice_def Let_def)

lemma registerDevice_frame:
  "myID (snd (registerDevice E c src dev t0 t1)) = myID c"
  "forcedBcastTick (snd (registerDevice E c src dev t0 t1)) = forcedBcastTick c"
  by (simp_all add: registerDevice_def Let_def)

lemma body_decode_error:
  assumes "snd (UnmarshalXDR E (buf_r r)) = Some e" and "e \<noteq> EOF"
  shows "recvAnnouncements_body E c r = Some c"
proof -
  obtain pkt err where d: "UnmarshalXDR E (buf_r r) = (pkt, err)"
    by (cases "UnmarshalXDR E (buf_r r)")
  with assms have "err = Some e" by simp
  with d assms(2) show ?thesis by (simp add: recvAnnouncements_body_def)
qed

lemma DeviceIDFromBytes_None: "DeviceIDFromBytes bs = None \<longleftrightarrow> length bs \<noteq> DeviceID_len"
  by (simp add: DeviceIDFromBytes_def)

lemma body_self:
  assumes "ID (This (fst (UnmarshalXDR E (buf_r r)))) = myID c"
    and "length (myID c) = DeviceID_len"
  shows "recvAnnouncements_body E c r = Some c"
proof -
  obtain pkt err where d: "UnmarshalXDR E (buf_r r) = (pkt, err)"
    by (cases "UnmarshalXDR E (buf_r r)")
  with assms have "ID (This pkt) = myID c" by simp
  with d assms(2) show ?thesis
    by (simp add: recvAnnouncements_body_def DeviceIDFromBytes_None)
qed


lemma body_myID:
  assumes "recvAnnouncements_body E c r = Some c'"
  shows "myID c' = myID c"
proof -
  obtain pkt err where d: "UnmarshalXDR E (buf_r r) = (pkt, err)"
    by (cases "UnmarshalXDR E (buf_r r)")
  obtain b c1 where rd: "registerDevice E c (addr_r r) (This pkt) (since_r r) (when_r r) = (b, c1)"
    by (cases "registerDevice E c (addr_r r) (This pkt) (since_r r) (when_r r)")
  have "myID c1 = myID c"
    using registerDevice_frame(1) [of E c "addr_r r" "This pkt" "since_r r" "when_r r"] rd by simp
  then show ?thesis
    using assms by (auto simp add: recvAnnouncements_body_def d rd split: if_splits)
qed

lemma recvAnnouncements_append:
  "recvAnnouncements E c (rs @ rs') =
     (case recvAnnouncements E c rs of
        None \<Rightarrow> None
      | Some c1 \<Rightarrow> recvAnnouncements E c1 rs')"
  by (induction rs arbitrary: c) (simp_all split: option.split)

lemma recvAnnouncements_myID:
  "recvAnnouncements E c rs = Some c' \<Longrightarrow> myID c' = myID c"
proof (induction rs arbitrary: c)
  case Nil
  then show ?case by simp
next
  case (Cons r rs)
  from Cons.prems obtain c1 where b: "recvAnnouncements_body E c r = Some c1"
    and rest: "recvAnnouncements E c1 rs = Some c'"
    by (auto split: option.splits)
  have "myID c' = myID c1" using Cons.IH [OF rest] .
  also have "myID c1 = myID c" using body_myID [OF b] .
  finally show ?case .
qed

lemma client_B_simps:
  "myID client_B = id_B" "cache client_B = Map.empty" "events client_B = []"
  "forcedBcastTick client_B = []"
  by (simp_all add: client_B_def newCache_def)

lemma id_A_neq_id_B: "id_A \<noteq> id_B"
  by (simp add: id_A_def id_B_def)

lemma copy_id_id_A: "copy_id id_A = id_A"
  by (simp add: copy_id_def id_A_def DeviceID_len_def)

lemma IsUnspecified_IPv4zero: "IsUnspecified IPv4zero"
  by (simp add: IsUnspecified_def IP_Equal_def)

lemma not_IsUnspecified_example: "\<not> IsUnspecified (v4InV6Prefix @ [192, 0, 2, 7])"
  by code_simp

lemma digit_char_simps:
  "digit_char 0 = CHR ''0''" "digit_char 1 = CHR ''1''" "digit_char 2 = CHR ''2''"
  "digit_char 3 = CHR ''3''" "digit_char 4 = CHR ''4''" "digit_char 5 = CHR ''5''"
  "digit_char 6 = CHR ''6''" "digit_char 7 = CHR ''7''" "digit_char 8 = CHR ''8''"
  "digit_char 9 = CHR ''9''" "digit_char (Suc 0) = CHR ''1''"
  by (simp_all add: digit_char_def char_of_def bit_Suc_0_iff)

lemma fmt_d_22000: "fmt_d 22000 = ''22000''"
  by (simp add: fmt_d_def dec_digits.simps digit_char_simps)

lemma fmt_d_22001: "fmt_d 22001 = ''22001''"
  by (simp add: fmt_d_def dec_digits.simps digit_char_simps)

lemma validAddresses_device_A:
  "validAddresses_loop example_extern ''192.0.2.5:54321'' (Addresses device_A) [] =
     [''tcp://192.0.2.5:22000'', ''tcp://192.0.2.7:22000'', ''tcp://192.0.2.5:22001'']"
  by (simp add: device_A_def example_extern_def tcp_url_def IsUnspecified_IPv4zero
      not_IsUnspecified_example fmt_d_22000 fmt_d_22001)

lemma length_copy_id: "length (copy_id b) = DeviceID_len"
  by (simp add: copy_id_def)

lemma nth_copy_id:
  "i < DeviceID_len \<Longrightarrow> copy_id b ! i = (if i < length b then b ! i else 0)"
  by (simp add: copy_id_def nth_append)

lemma copy_id_padding:
  "length b + k \<le> DeviceID_len \<Longrightarrow> copy_id (b @ replicate k 0) = copy_id b"
  by (simp add: copy_id_def replicate_add [symmetric])

lemma copy_id_excess:
  "DeviceID_len \<le> length b \<Longrightarrow> copy_id (b @ extra) = copy_id b"
  by (simp add: copy_id_def)

lemma registerDevice_ID:
  "copy_id b1 = copy_id b2 \<Longrightarrow>
   registerDevice E c src (dev\<lparr>ID := b1\<rparr>) t0 t1 = registerDevice E c src (dev\<lparr>ID := b2\<rparr>) t0 t1"
  by (simp add: registerDevice_def Let_def)

lemma recvAnnouncements_skip:
  assumes "\<And>c. myID c = my \<Longrightarrow> recvAnnouncements_body E c r = Some c" and "myID c = my"
  shows "recvAnnouncements E c (pre @ r # post) = recvAnnouncements E c (pre @ post)"
proof (cases "recvAnnouncements E c pre")
  case None
  then show ?thesis by (simp add: recvAnnouncements_append)
next
  case (Some c1)
  then have "myID c1 = my"
    using assms(2) recvAnnouncements_myID [of E c pre c1] by simp
  then have "recvAnnouncements_body E c1 r = Some c1"
    by (rule assms(1))
  then show ?thesis using Some by (simp add: recvAnnouncements_append)
qed

lemma example_decode:
  "UnmarshalXDR example_extern datagram_A = (\<lparr>Magic = 0x9D79BC40, This = device_A\<rparr>, None)"
  "UnmarshalXDR example_extern datagram_B =
     (\<lparr>Magic = 0x9D79BC40,
       This = \<lparr>ID = id_B, Addresses = [''tcp://0.0.0.0:22000''], Relays = []\<rparr>\<rparr>, None)"
  "UnmarshalXDR example_extern [] = (zero_Announce, Some EOF)"
  "UnmarshalXDR example_extern datagram_bad = (zero_Announce, Some (OtherError ''unexpected EOF''))"
  by (simp_all add: example_extern_def datagram_A_def datagram_B_def datagram_bad_def)

lemma recv_at_simps:
  "buf_r (recv_at b t) = b" "addr_r (recv_at b t) = ''192.0.2.5:54321''"
  "since_r (recv_at b t) = t" "when_r (recv_at b t) = t" "tick_r (recv_at b t) = t"
  by (simp_all add: recv_at_def)

lemma length_id_A: "length id_A = DeviceID_len"
  by (simp add: id_A_def DeviceID_len_def)

lemma length_id_B: "length id_B = DeviceID_len"
  by (simp add: id_B_def DeviceID_len_def)

lemma body_example_A:
  "cache_Get (cache c) id_A = None \<Longrightarrow> myID c = id_B \<Longrightarrow>
   recvAnnouncements_body (example_extern\<lparr>debug := dbg\<rparr>) c (recv_at datagram_A t) =
     Some (c\<lparr>cache := (cache c)(id_A \<mapsto>
          \<lparr>Direct = [''tcp://192.0.2.5:22000'', ''tcp://192.0.2.7:22000'', ''tcp://192.0.2.5:22001''],
           Relays_ce = [\<lparr>URL = ''relay://192.0.2.9:443'', Latency = 12\<rparr>],
           when_ce = t, found = True\<rparr>),
       events := events c @ [\<lparr>device_ev = id_A, addrs_ev = Addresses device_A,
                               relays_ev = [\<lparr>URL = ''relay://192.0.2.9:443'', Latency = 12\<rparr>]\<rparr>],
       forcedBcastTick := forcedBcastTick c @ [t]\<rparr>)"
proof -
  assume n: "cache_Get (cache c) id_A = None" and m: "myID c = id_B"
  have ida: "ID device_A = id_A"
    and rel: "Relays device_A = [\<lparr>URL = ''relay://192.0.2.9:443'', Latency = 12\<rparr>]"
    by (simp_all add: device_A_def)
  have same: "validAddresses_loop (example_extern\<lparr>debug := dbg\<rparr>) src as acc =
      validAddresses_loop example_extern src as acc" for src as acc
    by (induction as arbitrary: acc) (simp_all split: sum.split prod.split)
  have va: "validAddresses_loop (example_extern\<lparr>debug := dbg\<rparr>) ''192.0.2.5:54321''
      (Addresses device_A) [] =
     [''tcp://192.0.2.5:22000'', ''tcp://192.0.2.7:22000'', ''tcp://192.0.2.5:22001'']"
    by (simp add: same validAddresses_device_A)
  show ?thesis
    using n m id_A_neq_id_B
    by (simp add: recvAnnouncements_body_def recv_at_simps example_decode registerDevice_def
        Let_def ida rel copy_id_id_A va cache_Set_def DeviceIDFromBytes_None length_id_A)
qed



lemma validAddresses_loop_spec:
  assumes sp: "net_SplitHostPort E src = Inr (host, port)"
  shows "validAddresses_loop E src announced [] = concat (map (spec_normalize E host) announced)"
proof (induction announced)
  case Nil
  show ?case by simp
next
  case (Cons a rest)
  have step: "validAddresses_loop E src (a # rest) [] =
      spec_normalize E host a @ validAddresses_loop E src rest []"
  proof (cases "url_Parse E a")
    case (Inl e)
    then show ?thesis by (simp add: spec_normalize_def)
  next
    case (Inr u)
    note u = Inr
    show ?thesis
    proof (cases "net_ResolveTCPAddr E (Host u)")
      case (Inl e)
      then show ?thesis using u by (simp add: spec_normalize_def)
    next
      case (Inr ta)
      show ?thesis
        using u Inr sp
          validAddresses_loop_acc [of E src rest "[a]"]
          validAddresses_loop_acc [of E src rest
            "[URL_String E (u\<lparr>Host := host @ '':'' @ fmt_d (Port ta)\<rparr>)]"]
        by (simp add: spec_normalize_def)
    qed
  qed
  show ?case using step Cons.IH by simp
qed

lemma relays_loop_filter:
  "relays_loop RS rl [] =
     map (\<lambda>relay. \<lparr>URL = relay, Latency = int32 (quo (fst (RS relay)) Millisecond)\<rparr>)
       (filter (\<lambda>relay. snd (RS relay)) rl)"
proof (induction rl)
  case Nil
  show ?case by simp
next
  case (Cons a rl)
  obtain latency ok where st: "RS a = (latency, ok)" by (cases "RS a")
  show ?case
    using st Cons.IH
      relays_loop_acc [of RS rl "[\<lparr>URL = a, Latency = int32 (quo latency Millisecond)\<rparr>]"]
    by simp
qed

lemma quo_nonneg: "0 \<le> a \<Longrightarrow> 0 < b \<Longrightarrow> quo a b = a div b"
  by (cases "a = 0") (simp_all add: quo_def)

lemma int32_id: "- (2 ^ 31) \<le> x \<Longrightarrow> x < 2 ^ 31 \<Longrightarrow> int32 x = x"
  by (simp add: int32_def)

lemma int32_range: "- (2 ^ 31) \<le> int32 x \<and> int32 x < 2 ^ 31"
proof -
  have "0 \<le> (x + 2 ^ 31) mod 2 ^ 32" "(x + 2 ^ 31) mod 2 ^ 32 < 2 ^ 32"
    by simp_all
  then show ?thesis by (simp add: int32_def)
qed

lemma latency_in_range:
  assumes "0 \<le> d" and "d < 2 ^ 31 * Millisecond"
  shows "int32 (quo d Millisecond) = d div Millisecond" and "0 \<le> d div Millisecond"
proof -
  have q: "quo d Millisecond = d div Millisecond"
    using assms(1) by (simp add: quo_nonneg Millisecond_def)
  have lo: "0 \<le> d div Millisecond"
    using assms(1) by (simp add: Millisecond_def pos_imp_zdiv_nonneg_iff)
  have hi: "d div Millisecond < 2 ^ 31"
    using assms(2) by (simp add: Millisecond_def div_less_iff_less_mult mult.commute)
  show "int32 (quo d Millisecond) = d div Millisecond"
    using q lo hi by (simp add: int32_id)
  show "0 \<le> d div Millisecond" by (rule lo)
qed

lemma fmt_c_22000: "fmt_c 22000 = [CHR 0xE5, CHR 0x97, CHR 0xB0]"
  by (simp add: fmt_c_def utf8_EncodeRune_def MaxRune_def RuneError_def char_of_def)

lemma IP_String_example: "IP_String [192, 0, 2, 5] = ''192.0.2.5''"
  by (simp add: IP_String_def To4_def dec_digits.simps digit_char_simps)

subsection \<open>Lookup\<close>

text \<open>
  Claim C9. The error result of \<open>Lookup\<close> is \<open>nil\<close> for every device identifier,
  every state of the cache and every clock reading; when there is no record of
  the identifier, or the record is stale, the direct addresses and the relays
  are both empty, and that is the only sign of it.
\<close>

theorem Lookup_never_fails:
  "snd (snd (Lookup c now dev)) = None \<and>
   (cache_Get (cache c) dev = None \<or>
    (\<exists>ce. cache_Get (cache c) dev = Some ce \<and> CacheLifeTime \<le> time_Since now (when_ce ce))
    \<longrightarrow> fst (Lookup c now dev) = [] \<and> fst (snd (Lookup c now dev)) = [])"
  by (auto simp add: Lookup_def split: option.split)

theorem Lookup_never_fails_witness:
  "cache_Get (cache client_B) id_A = None \<and>
   snd (snd (Lookup client_B 5 id_A)) = None \<and>
   fst (Lookup client_B 5 id_A) = [] \<and> fst (snd (Lookup client_B 5 id_A)) = []"
proof -
  have h: "cache_Get (cache client_B) id_A = None"
    by (simp add: cache_Get_def client_B_simps)
  show ?thesis using h Lookup_never_fails [of client_B 5 id_A] by simp
qed

text \<open>
  Claim C4. A cache record written at time \<open>T\<close> (by \<open>registerDevice\<close>, the only
  writer, or any record whose time stamp is \<open>T\<close>): \<open>Lookup\<close> at a time strictly
  before \<open>T + CacheLifeTime\<close> returns the stored direct addresses and relays;
  \<open>Lookup\<close> at \<open>T + CacheLifeTime\<close> or later returns no addresses and no relays,
  and so does \<open>Lookup\<close> of an identifier that was never written.
\<close>

theorem Lookup_freshness:
  "(let c' = snd (registerDevice E c0 src d t0 T);
        stored = (validAddresses_loop E src (Addresses d) [], Relays d, None)
    in (now < T + CacheLifeTime \<longrightarrow> Lookup c' now (copy_id (ID d)) = stored) \<and>
       (T + CacheLifeTime \<le> now \<longrightarrow> Lookup c' now (copy_id (ID d)) = ([], [], None))) \<and>
   (cache_Get (cache c) dev = Some ce \<and> when_ce ce = T \<and> now < T + CacheLifeTime
      \<longrightarrow> Lookup c now dev = (Direct ce, Relays_ce ce, None)) \<and>
   (cache_Get (cache c) dev = Some ce \<and> when_ce ce = T \<and> T + CacheLifeTime \<le> now
      \<longrightarrow> Lookup c now dev = ([], [], None)) \<and>
   (cache_Get (cache c) dev = None \<longrightarrow> Lookup c now dev = ([], [], None))"
proof -
  let ?c' = "snd (registerDevice E c0 src d t0 T)"
  let ?ce = "\<lparr>Direct = validAddresses_loop E src (Addresses d) [], Relays_ce = Relays d,
           when_ce = T, found = True\<rparr>"
  have w: "cache_Get (cache ?c') (copy_id (ID d)) = Some ?ce"
    by (simp add: registerDevice_cache cache_Get_def)
  have a: "now < T + CacheLifeTime \<longrightarrow>
      Lookup ?c' now (copy_id (ID d)) = (validAddresses_loop E src (Addresses d) [], Relays d, None)"
    using Lookup_fresh [OF w, of now] by simp
  have b: "T + CacheLifeTime \<le> now \<longrightarrow> Lookup ?c' now (copy_id (ID d)) = ([], [], None)"
    using Lookup_stale [OF w, of now] by simp
  show ?thesis
    using a b Lookup_fresh [of c dev ce now] Lookup_stale [of c dev ce now]
      Lookup_unknown [of c dev now]
    by (simp add: Let_def)
qed

theorem Lookup_freshness_witness:
  "(1000 + CacheLifeTime - 1 < 1000 + CacheLifeTime \<and>
    Lookup (snd (registerDevice example_extern client_B ''192.0.2.5:54321'' device_A 1000 1000))
      (1000 + CacheLifeTime - 1) id_A =
      ([''tcp://192.0.2.5:22000'', ''tcp://192.0.2.7:22000'', ''tcp://192.0.2.5:22001''],
       [\<lparr>URL = ''relay://192.0.2.9:443'', Latency = 12\<rparr>], None)) \<and>
   (1000 + CacheLifeTime \<le> 1000 + CacheLifeTime \<and>
    Lookup (snd (registerDevice example_extern client_B ''192.0.2.5:54321'' device_A 1000 1000))
      (1000 + CacheLifeTime) id_A = ([], [], None)) \<and>
   (cache_Get (cache client_B) id_A = None \<and> Lookup client_B 1000 id_A = ([], [], None))"
proof -
  have ida: "ID device_A = id_A" and rel: "Relays device_A = [\<lparr>URL = ''relay://192.0.2.9:443'', Latency = 12\<rparr>]"
    by (simp_all add: device_A_def)
  have h: "cache_Get (cache client_B) id_A = None"
    by (simp add: cache_Get_def client_B_simps)
  have 1: "Lookup (snd (registerDevice example_extern client_B ''192.0.2.5:54321'' device_A 1000 1000))
      (1000 + CacheLifeTime - 1) id_A =
      ([''tcp://192.0.2.5:22000'', ''tcp://192.0.2.7:22000'', ''tcp://192.0.2.5:22001''],
       [\<lparr>URL = ''relay://192.0.2.9:443'', Latency = 12\<rparr>], None)"
    using Lookup_freshness [where now = "1000 + CacheLifeTime - 1" and T = 1000
        and E = example_extern and ?c0.0 = client_B and src = "''192.0.2.5:54321''"
        and d = device_A and ?t0.0 = 1000 and c = client_B and dev = id_A]
    by (simp add: Let_def ida rel copy_id_id_A validAddresses_device_A)
  have 2: "Lookup (snd (registerDevice example_extern client_B ''192.0.2.5:54321'' device_A 1000 1000))
      (1000 + CacheLifeTime) id_A = ([], [], None)"
    using Lookup_freshness [where now = "1000 + CacheLifeTime" and T = 1000
        and E = example_extern and ?c0.0 = client_B and src = "''192.0.2.5:54321''"
        and d = device_A and ?t0.0 = 1000 and c = client_B and dev = id_A]
    by (simp add: Let_def ida copy_id_id_A)
  have 3: "Lookup client_B 1000 id_A = ([], [], None)"
    using h Lookup_freshness [where now = 1000 and T = 1000
        and E = example_extern and ?c0.0 = client_B and src = "''192.0.2.5:54321''"
        and d = device_A and ?t0.0 = 1000 and c = client_B and dev = id_A]
    by simp
  show ?thesis using 1 2 3 h by simp
qed

subsection \<open>The receive path\<close>

text \<open>
  Claim C1, as amended. A datagram whose decoding returns an error other than
  \<open>io.EOF\<close> changes nothing: the iteration returns the client as it was (cache,
  events and \<open>forcedBcastTick\<close> unchanged) and does not panic, and the loop goes
  on, so that the datagrams after it are handled as if it had never arrived.
\<close>

theorem decode_error_ignored:
  "snd (UnmarshalXDR E (buf_r r)) = Some e \<and> e \<noteq> EOF \<longrightarrow>
     recvAnnouncements_body E c r = Some c \<and>
     recvAnnouncements E c (pre @ r # post) = recvAnnouncements E c (pre @ post)"
proof
  assume bad: "snd (UnmarshalXDR E (buf_r r)) = Some e \<and> e \<noteq> EOF"
  then have drop: "\<And>c'. recvAnnouncements_body E c' r = Some c'"
    by (simp add: body_decode_error)
  then have "recvAnnouncements E c (pre @ r # post) = recvAnnouncements E c (pre @ post)"
    using recvAnnouncements_skip [of "myID c" E r c pre post] by simp
  with drop show "recvAnnouncements_body E c r = Some c \<and>
     recvAnnouncements E c (pre @ r # post) = recvAnnouncements E c (pre @ post)"
    by simp
qed

theorem decode_error_ignored_witness:
  "(snd (UnmarshalXDR example_extern (buf_r (recv_at datagram_bad 1000))) =
      Some (OtherError ''unexpected EOF'') \<and> OtherError ''unexpected EOF'' \<noteq> EOF) \<and>
   recvAnnouncements_body example_extern client_B (recv_at datagram_bad 1000) = Some client_B \<and>
   recvAnnouncements example_extern client_B ([] @ recv_at datagram_bad 1000 # [recv_at datagram_A 2000]) =
   recvAnnouncements example_extern client_B ([] @ [recv_at datagram_A 2000]) \<and>
   recvAnnouncements example_extern client_B ([] @ recv_at datagram_bad 1000 # [recv_at datagram_A 2000]) =
     Some (client_B\<lparr>cache := (cache client_B)(id_A \<mapsto>
          \<lparr>Direct = [''tcp://192.0.2.5:22000'', ''tcp://192.0.2.7:22000'', ''tcp://192.0.2.5:22001''],
           Relays_ce = [\<lparr>URL = ''relay://192.0.2.9:443'', Latency = 12\<rparr>],
           when_ce = 2000, found = True\<rparr>),
       events := events client_B @ [\<lparr>device_ev = id_A, addrs_ev = Addresses device_A,
                               relays_ev = [\<lparr>URL = ''relay://192.0.2.9:443'', Latency = 12\<rparr>]\<rparr>],
       forcedBcastTick := forcedBcastTick client_B @ [2000]\<rparr>)"
proof -
  have h: "snd (UnmarshalXDR example_extern (buf_r (recv_at datagram_bad 1000))) =
      Some (OtherError ''unexpected EOF'') \<and> OtherError ''unexpected EOF'' \<noteq> EOF"
    by (simp add: recv_at_simps example_decode)
  have step: "recvAnnouncements_body example_extern client_B (recv_at datagram_bad 1000) = Some client_B \<and>
   recvAnnouncements example_extern client_B ([] @ recv_at datagram_bad 1000 # [recv_at datagram_A 2000]) =
   recvAnnouncements example_extern client_B ([] @ [recv_at datagram_A 2000])"
    using h decode_error_ignored [of example_extern "recv_at datagram_bad 1000"
        "OtherError ''unexpected EOF''" client_B "[]" "[recv_at datagram_A 2000]"]
    by blast
  have n: "cache_Get (cache client_B) id_A = None"
    by (simp add: cache_Get_def client_B_simps)
  have m: "myID client_B = id_B"
    by (simp add: client_B_simps)
  have e: "example_extern\<lparr>debug := False\<rparr> = example_extern"
    by (simp add: example_extern_def)
  have "recvAnnouncements example_extern client_B ([] @ [recv_at datagram_A 2000]) =
     Some (client_B\<lparr>cache := (cache client_B)(id_A \<mapsto>
          \<lparr>Direct = [''tcp://192.0.2.5:22000'', ''tcp://192.0.2.7:22000'', ''tcp://192.0.2.5:22001''],
           Relays_ce = [\<lparr>URL = ''relay://192.0.2.9:443'', Latency = 12\<rparr>],
           when_ce = 2000, found = True\<rparr>),
       events := events client_B @ [\<lparr>device_ev = id_A, addrs_ev = Addresses device_A,
                               relays_ev = [\<lparr>URL = ''relay://192.0.2.9:443'', Latency = 12\<rparr>]\<rparr>],
       forcedBcastTick := forcedBcastTick client_B @ [2000]\<rparr>)"
    using body_example_A [OF n m, of False 2000] by (simp add: e)
  with h step show ?thesis by simp
qed

text \<open>
  The claim as stated, for every datagram that fails to decode, does not hold:
  the loop lets the error \<open>io.EOF\<close> through. With a decoder that reports
  \<open>io.EOF\<close> on the empty datagram and leaves the announcement zero-valued, and
  with \<open>debug\<close> off, the empty datagram registers the all-zero identifier,
  publishes an event and sends on \<open>forcedBcastTick\<close>.
\<close>

theorem decode_EOF_counterexample:
  "snd (UnmarshalXDR example_extern (buf_r (recv_at [] 1000))) = Some EOF \<and>
   cache client_B (replicate 32 0) = None \<and>
   events client_B = [] \<and>
   forcedBcastTick client_B = [] \<and>
   recvAnnouncements_body example_extern client_B (recv_at [] 1000) =
     Some (client_B\<lparr>cache := (cache client_B)(replicate 32 0 \<mapsto>
              \<lparr>Direct = [], Relays_ce = [], when_ce = 1000, found = True\<rparr>),
            events := [\<lparr>device_ev = replicate 32 0, addrs_ev = [], relays_ev = []\<rparr>],
            forcedBcastTick := [1000]\<rparr>) \<and>
   recvAnnouncements_body example_extern client_B (recv_at [] 1000) \<noteq> Some client_B"
proof -
  have nb: "(id_B :: byte list) \<noteq> []" by (simp add: id_B_def)
  have dbg: "\<not> debug example_extern" by (simp add: example_extern_def)
  have b: "recvAnnouncements_body example_extern client_B (recv_at [] 1000) =
     Some (client_B\<lparr>cache := (cache client_B)(replicate 32 0 \<mapsto>
              \<lparr>Direct = [], Relays_ce = [], when_ce = 1000, found = True\<rparr>),
            events := [\<lparr>device_ev = replicate 32 0, addrs_ev = [], relays_ev = []\<rparr>],
            forcedBcastTick := [1000]\<rparr>)"
    using nb dbg
    by (simp add: recvAnnouncements_body_def recv_at_simps example_decode zero_Announce_def
        registerDevice_def Let_def client_B_simps copy_id_def DeviceID_len_def cache_Set_def
        cache_Get_def)
  have ne: "client_B\<lparr>cache := (cache client_B)(replicate 32 0 \<mapsto>
              \<lparr>Direct = [], Relays_ce = [], when_ce = 1000, found = True\<rparr>),
            events := [\<lparr>device_ev = replicate 32 0, addrs_ev = [], relays_ev = []\<rparr>],
            forcedBcastTick := [1000]\<rparr> \<noteq> client_B"
  proof
    assume "client_B\<lparr>cache := (cache client_B)(replicate 32 0 \<mapsto>
              \<lparr>Direct = [], Relays_ce = [], when_ce = 1000, found = True\<rparr>),
            events := [\<lparr>device_ev = replicate 32 0, addrs_ev = [], relays_ev = []\<rparr>],
            forcedBcastTick := [1000]\<rparr> = client_B"
    then have "forcedBcastTick (client_B\<lparr>cache := (cache client_B)(replicate 32 0 \<mapsto>
              \<lparr>Direct = [], Relays_ce = [], when_ce = 1000, found = True\<rparr>),
            events := [\<lparr>device_ev = replicate 32 0, addrs_ev = [], relays_ev = []\<rparr>],
            forcedBcastTick := [1000]\<rparr>) = forcedBcastTick client_B"
      by simp
    then show False by (simp add: client_B_simps)
  qed
  show ?thesis
    using b ne by (simp add: recv_at_simps example_decode client_B_simps)
qed

text \<open>
  Claim C6. An announcement whose sender identifier is, byte for byte, the
  client's own identifier (an array of 32 bytes) changes nothing: the iteration
  of the receive loop that handles it returns the client as it was (no cache
  entry created or updated, no event, nothing sent on \<open>forcedBcastTick\<close>),
  whatever the decoder's error result and whether \<open>debug\<close> is on or off. This
  holds in every state: in a run of the loop from any client, after any
  datagrams \<open>pre\<close>, the self-announcement can be left out without changing the
  outcome.
\<close>

theorem self_announcement_ignored:
  "ID (This (fst (UnmarshalXDR E (buf_r r)))) = myID c \<and> length (myID c) = DeviceID_len \<longrightarrow>
     recvAnnouncements_body E c r = Some c \<and>
     recvAnnouncements E c (pre @ r # post) = recvAnnouncements E c (pre @ post)"
proof
  assume self: "ID (This (fst (UnmarshalXDR E (buf_r r)))) = myID c \<and>
    length (myID c) = DeviceID_len"
  have "\<And>c'. myID c' = myID c \<Longrightarrow> recvAnnouncements_body E c' r = Some c'"
    using self by (simp add: body_self)
  then have "recvAnnouncements E c (pre @ r # post) = recvAnnouncements E c (pre @ post)"
    using recvAnnouncements_skip [of "myID c" E r c pre post] by simp
  with self show "recvAnnouncements_body E c r = Some c \<and>
     recvAnnouncements E c (pre @ r # post) = recvAnnouncements E c (pre @ post)"
    by (simp add: body_self)
qed

theorem self_announcement_ignored_witness:
  "(ID (This (fst (UnmarshalXDR (example_extern\<lparr>debug := True\<rparr>)
        (buf_r (recv_at datagram_B 1000))))) = myID client_B \<and>
    length (myID client_B) = DeviceID_len) \<and>
   recvAnnouncements_body (example_extern\<lparr>debug := True\<rparr>) client_B (recv_at datagram_B 1000) =
     Some client_B \<and>
   recvAnnouncements (example_extern\<lparr>debug := True\<rparr>) client_B
     ([recv_at datagram_A 500] @ recv_at datagram_B 1000 # [recv_at datagram_A 2000]) =
   recvAnnouncements (example_extern\<lparr>debug := True\<rparr>) client_B
     ([recv_at datagram_A 500] @ [recv_at datagram_A 2000])"
proof -
  have h: "ID (This (fst (UnmarshalXDR (example_extern\<lparr>debug := True\<rparr>)
        (buf_r (recv_at datagram_B 1000))))) = myID client_B \<and>
    length (myID client_B) = DeviceID_len"
    by (simp add: recv_at_simps example_decode client_B_simps length_id_B)
  show ?thesis
    using h self_announcement_ignored [of "example_extern\<lparr>debug := True\<rparr>"
        "recv_at datagram_B 1000" client_B "[recv_at datagram_A 500]" "[recv_at datagram_A 2000]"]
    by blast
qed




subsection \<open>Registration\<close>

text \<open>
  Claim C3 says that a record whose age is exactly \<open>CacheLifeTime\<close> is stale and
  makes the peer newly discovered. \<open>registerDevice\<close> tests
  \<open>time.Since(ce.when) > CacheLifeTime\<close>: with a record of A stored at time 1000,
  an announcement of A registered at \<open>1000 + CacheLifeTime\<close> is not new, while
  \<open>Lookup\<close> at that same time already treats the record as stale and returns
  nothing.
\<close>

theorem registerDevice_boundary_not_new:
  "cache (snd (registerDevice example_extern client_B ''192.0.2.5:54321'' device_A 1000 1000)) id_A =
     Some \<lparr>Direct = [''tcp://192.0.2.5:22000'', ''tcp://192.0.2.7:22000'', ''tcp://192.0.2.5:22001''],
           Relays_ce = Relays device_A, when_ce = 1000, found = True\<rparr> \<and>
   time_Since (1000 + CacheLifeTime) 1000 = CacheLifeTime \<and>
   fst (registerDevice example_extern
         (snd (registerDevice example_extern client_B ''192.0.2.5:54321'' device_A 1000 1000))
         ''192.0.2.5:54321'' device_A (1000 + CacheLifeTime) (1000 + CacheLifeTime)) = False \<and>
   Lookup (snd (registerDevice example_extern client_B ''192.0.2.5:54321'' device_A 1000 1000))
     (1000 + CacheLifeTime) id_A = ([], [], None)"
proof -
  let ?c = "snd (registerDevice example_extern client_B ''192.0.2.5:54321'' device_A 1000 1000)"
  have ida: "copy_id (ID device_A) = id_A"
    using copy_id_id_A by (simp add: device_A_def)
  have w: "cache ?c id_A =
     Some \<lparr>Direct = [''tcp://192.0.2.5:22000'', ''tcp://192.0.2.7:22000'', ''tcp://192.0.2.5:22001''],
           Relays_ce = Relays device_A, when_ce = 1000, found = True\<rparr>"
    by (simp add: registerDevice_cache ida validAddresses_device_A)
  have s: "time_Since (1000 + CacheLifeTime) 1000 = CacheLifeTime"
    by (simp add: time_Since_def Time_Sub_def minDuration_def maxDuration_def CacheLifeTime_val)
  have n: "fst (registerDevice example_extern ?c ''192.0.2.5:54321'' device_A
                 (1000 + CacheLifeTime) (1000 + CacheLifeTime)) = False"
    by (simp add: registerDevice_new ida w)
  have l: "Lookup ?c (1000 + CacheLifeTime) id_A = ([], [], None)"
    by (simp add: Lookup_def cache_Get_def w s)
  show ?thesis using w s n l by simp
qed

text \<open>
  Claim C5. When the source address of the packet has a host portion \<open>host\<close>, the
  direct addresses that \<open>registerDevice\<close> stores are, in the order announced,
  what \<open>spec_normalize\<close> gives for each announced address: nothing for an address
  that does not parse or resolve (the others are still handled), the address
  with its host replaced by \<open>host\<close> and the announced port kept when its IP is
  empty or unspecified, and the address unchanged when its IP is specific.
\<close>

theorem registered_addresses_normalized:
  "net_SplitHostPort E src = Inr (host, port) \<longrightarrow>
     validAddresses_loop E src announced [] = concat (map (spec_normalize E host) announced) \<and>
     cache (snd (registerDevice E c src dev t0 t1)) (copy_id (ID dev)) =
       Some \<lparr>Direct = concat (map (spec_normalize E host) (Addresses dev)),
             Relays_ce = Relays dev, when_ce = t1, found = True\<rparr>"
  by (simp add: validAddresses_loop_spec registerDevice_cache)

theorem registered_addresses_normalized_witness:
  "net_SplitHostPort example_extern ''192.0.2.5:54321'' = Inr (''192.0.2.5'', ''54321'') \<and>
   concat (map (spec_normalize example_extern ''192.0.2.5'') (Addresses device_A)) =
     [''tcp://192.0.2.5:22000'', ''tcp://192.0.2.7:22000'', ''tcp://192.0.2.5:22001''] \<and>
   cache (snd (registerDevice example_extern client_B ''192.0.2.5:54321'' device_A 1000 1000))
       (copy_id (ID device_A)) =
     Some \<lparr>Direct = [''tcp://192.0.2.5:22000'', ''tcp://192.0.2.7:22000'', ''tcp://192.0.2.5:22001''],
           Relays_ce = Relays device_A, when_ce = 1000, found = True\<rparr>"
proof -
  have h: "net_SplitHostPort example_extern ''192.0.2.5:54321'' = Inr (''192.0.2.5'', ''54321'')"
    by (simp add: example_extern_def)
  have t: "validAddresses_loop example_extern ''192.0.2.5:54321'' (Addresses device_A) [] =
       concat (map (spec_normalize example_extern ''192.0.2.5'') (Addresses device_A)) \<and>
     cache (snd (registerDevice example_extern client_B ''192.0.2.5:54321'' device_A 1000 1000))
       (copy_id (ID device_A)) =
       Some \<lparr>Direct = concat (map (spec_normalize example_extern ''192.0.2.5'') (Addresses device_A)),
             Relays_ce = Relays device_A, when_ce = 1000, found = True\<rparr>"
    using h registered_addresses_normalized [of example_extern "''192.0.2.5:54321''"
        "''192.0.2.5''" "''54321''" "Addresses device_A" client_B device_A 1000 1000]
    by blast
  then have "concat (map (spec_normalize example_extern ''192.0.2.5'') (Addresses device_A)) =
     [''tcp://192.0.2.5:22000'', ''tcp://192.0.2.7:22000'', ''tcp://192.0.2.5:22001'']"
    using validAddresses_device_A by simp
  with h t show ?thesis by simp
qed

text \<open>
  Claim C10. Registration coerces the announced identifier to the 32 bytes of a
  device identifier by copying: \<open>copy_id\<close> keeps the first 32 bytes and fills
  what is missing with zeros. So an identifier shorter than 32 bytes and the
  same bytes followed by zeros (up to 32), and an identifier of 32 bytes or more
  and the same with further bytes appended, are registered alike: same result,
  same client after the call. The record is stored under the coerced identifier,
  no other record changes, and the event reports the coerced identifier.
\<close>

theorem registerDevice_coerces_ID:
  "length (copy_id b) = DeviceID_len \<and>
   (\<forall>i < DeviceID_len. copy_id b ! i = (if i < length b then b ! i else 0)) \<and>
   (length b + k \<le> DeviceID_len \<longrightarrow>
      registerDevice E c src (dev\<lparr>ID := b @ replicate k 0\<rparr>) t0 t1 =
      registerDevice E c src (dev\<lparr>ID := b\<rparr>) t0 t1) \<and>
   (DeviceID_len \<le> length b \<longrightarrow>
      registerDevice E c src (dev\<lparr>ID := b @ extra\<rparr>) t0 t1 =
      registerDevice E c src (dev\<lparr>ID := b\<rparr>) t0 t1) \<and>
   cache (snd (registerDevice E c src (dev\<lparr>ID := b\<rparr>) t0 t1)) (copy_id b) \<noteq> None \<and>
   (\<forall>x. x \<noteq> copy_id b \<longrightarrow>
      cache (snd (registerDevice E c src (dev\<lparr>ID := b\<rparr>) t0 t1)) x = cache c x) \<and>
   (fst (registerDevice E c src (dev\<lparr>ID := b\<rparr>) t0 t1) \<longrightarrow>
      device_ev (last (events (snd (registerDevice E c src (dev\<lparr>ID := b\<rparr>) t0 t1)))) = copy_id b)"
proof -
  have 1: "\<forall>i < DeviceID_len. copy_id b ! i = (if i < length b then b ! i else 0)"
    by (simp add: nth_copy_id)
  have 2: "length b + k \<le> DeviceID_len \<longrightarrow>
      registerDevice E c src (dev\<lparr>ID := b @ replicate k 0\<rparr>) t0 t1 =
      registerDevice E c src (dev\<lparr>ID := b\<rparr>) t0 t1"
    using copy_id_padding [of b k] registerDevice_ID [of "b @ replicate k 0" b E c src dev t0 t1]
    by blast
  have 3: "DeviceID_len \<le> length b \<longrightarrow>
      registerDevice E c src (dev\<lparr>ID := b @ extra\<rparr>) t0 t1 =
      registerDevice E c src (dev\<lparr>ID := b\<rparr>) t0 t1"
    using copy_id_excess [of b extra] registerDevice_ID [of "b @ extra" b E c src dev t0 t1]
    by blast
  have 4: "cache (snd (registerDevice E c src (dev\<lparr>ID := b\<rparr>) t0 t1)) (copy_id b) \<noteq> None"
    by (simp add: registerDevice_cache)
  have 5: "\<forall>x. x \<noteq> copy_id b \<longrightarrow>
      cache (snd (registerDevice E c src (dev\<lparr>ID := b\<rparr>) t0 t1)) x = cache c x"
    by (simp add: registerDevice_cache)
  have 6: "fst (registerDevice E c src (dev\<lparr>ID := b\<rparr>) t0 t1) \<longrightarrow>
      device_ev (last (events (snd (registerDevice E c src (dev\<lparr>ID := b\<rparr>) t0 t1)))) = copy_id b"
    by (simp add: registerDevice_events)
  from length_copy_id [of b] 1 2 3 4 5 6 show ?thesis by blast
qed

theorem registerDevice_coerces_ID_witness:
  "(1 < DeviceID_len \<and> copy_id [7, 8, 9] ! 1 = 8) \<and>
   (5 < DeviceID_len \<and> copy_id [7, 8, 9] ! 5 = 0) \<and>
   (length [7, 8, 9 :: byte] + 2 \<le> DeviceID_len \<and>
    registerDevice example_extern client_B ''192.0.2.5:54321''
      (device_A\<lparr>ID := [7, 8, 9] @ replicate 2 0\<rparr>) 1000 1000 =
    registerDevice example_extern client_B ''192.0.2.5:54321''
      (device_A\<lparr>ID := [7, 8, 9]\<rparr>) 1000 1000) \<and>
   (DeviceID_len \<le> length id_A \<and>
    registerDevice example_extern client_B ''192.0.2.5:54321''
      (device_A\<lparr>ID := id_A @ [7, 8]\<rparr>) 1000 1000 =
    registerDevice example_extern client_B ''192.0.2.5:54321''
      (device_A\<lparr>ID := id_A\<rparr>) 1000 1000) \<and>
   (fst (registerDevice example_extern client_B ''192.0.2.5:54321''
      (device_A\<lparr>ID := [7, 8, 9]\<rparr>) 1000 1000) \<and>
    device_ev (last (events (snd (registerDevice example_extern client_B ''192.0.2.5:54321''
      (device_A\<lparr>ID := [7, 8, 9]\<rparr>) 1000 1000)))) = [7, 8, 9] @ replicate 29 0)"
proof -
  note t1 = registerDevice_coerces_ID [where b = "[7, 8, 9]" and k = 2 and extra = "[]"
      and E = example_extern and c = client_B and src = "''192.0.2.5:54321''"
      and dev = device_A and ?t0.0 = 1000 and ?t1.0 = 1000]
  note t2 = registerDevice_coerces_ID [where b = id_A and k = 0 and extra = "[7, 8]"
      and E = example_extern and c = client_B and src = "''192.0.2.5:54321''"
      and dev = device_A and ?t0.0 = 1000 and ?t1.0 = 1000]
  have i1: "1 < DeviceID_len" and i5: "5 < DeviceID_len"
    and l3: "length [7, 8, 9 :: byte] + 2 \<le> DeviceID_len"
    and la: "DeviceID_len \<le> length id_A"
    by (simp_all add: DeviceID_len_def id_A_def)
  have a: "copy_id [7, 8, 9] ! 1 = 8"
    using t1 i1 by simp
  have b: "copy_id [7, 8, 9] ! 5 = 0"
    using t1 i5 by simp
  have c: "registerDevice example_extern client_B ''192.0.2.5:54321''
      (device_A\<lparr>ID := [7, 8, 9] @ replicate 2 0\<rparr>) 1000 1000 =
    registerDevice example_extern client_B ''192.0.2.5:54321''
      (device_A\<lparr>ID := [7, 8, 9]\<rparr>) 1000 1000"
    using t1 l3 by blast
  have d: "registerDevice example_extern client_B ''192.0.2.5:54321''
      (device_A\<lparr>ID := id_A @ [7, 8]\<rparr>) 1000 1000 =
    registerDevice example_extern client_B ''192.0.2.5:54321''
      (device_A\<lparr>ID := id_A\<rparr>) 1000 1000"
    using t2 la by blast
  have n: "fst (registerDevice example_extern client_B ''192.0.2.5:54321''
      (device_A\<lparr>ID := [7, 8, 9]\<rparr>) 1000 1000)"
    by (simp add: registerDevice_new client_B_simps)
  have cp: "copy_id [7, 8, 9] = [7, 8, 9] @ replicate 29 0"
    by (simp add: copy_id_def DeviceID_len_def)
  have e: "device_ev (last (events (snd (registerDevice example_extern client_B ''192.0.2.5:54321''
      (device_A\<lparr>ID := [7, 8, 9]\<rparr>) 1000 1000)))) = [7, 8, 9] @ replicate 29 0"
    using t1 n cp by simp
  show ?thesis using i1 i5 l3 la a b c d n e by blast
qed

subsection \<open>The outgoing announcement\<close>

text \<open>
  Claim C8, as amended. The relays of the outgoing announcement are the
  configured relays that have a latency measurement, in order, each with the
  latency \<open>int32 (latency / time.Millisecond)\<close>; a relay without a measurement
  is left out. That latency is an \<open>int32\<close> value; for a duration \<open>d\<close> with
  \<open>0 \<le> d < 2^31\<close> milliseconds it is the whole number of milliseconds in \<open>d\<close>
  and not negative.
\<close>

theorem announcementPkt_relays:
  "Relays (This (announcementPkt magic my addrs rl RS)) =
     map (\<lambda>relay. \<lparr>URL = relay, Latency = int32 (quo (fst (RS relay)) Millisecond)\<rparr>)
       (filter (\<lambda>relay. snd (RS relay)) rl) \<and>
   (- (2 ^ 31) \<le> int32 (quo d Millisecond) \<and> int32 (quo d Millisecond) < 2 ^ 31) \<and>
   (0 \<le> d \<and> d < 2 ^ 31 * Millisecond \<longrightarrow>
      int32 (quo d Millisecond) = d div Millisecond \<and> 0 \<le> int32 (quo d Millisecond))"
  using latency_in_range [of d] int32_range [of "quo d Millisecond"]
  by (simp add: announcementPkt_def relays_loop_filter)

theorem announcementPkt_relays_witness:
  "(0 \<le> fst (example_RelayStatus ''relay://192.0.2.9:443'') \<and>
    fst (example_RelayStatus ''relay://192.0.2.9:443'') < 2 ^ 31 * Millisecond) \<and>
   Relays (This (announcementPkt 0x9D79BC40 id_B [''tcp://0.0.0.0:22000'']
                   [''relay://192.0.2.8:443'', ''relay://192.0.2.9:443''] example_RelayStatus)) =
     [\<lparr>URL = ''relay://192.0.2.9:443'', Latency = 12\<rparr>] \<and>
   int32 (quo (fst (example_RelayStatus ''relay://192.0.2.9:443'')) Millisecond) = 12"
proof -
  have v: "fst (example_RelayStatus ''relay://192.0.2.9:443'') = 12345678"
    by (simp add: example_RelayStatus_def)
  have h: "0 \<le> fst (example_RelayStatus ''relay://192.0.2.9:443'') \<and>
    fst (example_RelayStatus ''relay://192.0.2.9:443'') < 2 ^ 31 * Millisecond"
    by (simp add: v Millisecond_def)
  have l: "int32 (quo (fst (example_RelayStatus ''relay://192.0.2.9:443'')) Millisecond) = 12"
    using h announcementPkt_relays [where magic = "0x9D79BC40" and my = id_B
        and addrs = "[''tcp://0.0.0.0:22000'']"
        and rl = "[''relay://192.0.2.8:443'', ''relay://192.0.2.9:443'']"
        and RS = example_RelayStatus
        and d = "fst (example_RelayStatus ''relay://192.0.2.9:443'')"]
    by (simp add: v Millisecond_def)
  have r: "Relays (This (announcementPkt 0x9D79BC40 id_B [''tcp://0.0.0.0:22000'']
                   [''relay://192.0.2.8:443'', ''relay://192.0.2.9:443''] example_RelayStatus)) =
     [\<lparr>URL = ''relay://192.0.2.9:443'',
        Latency = int32 (quo (fst (example_RelayStatus ''relay://192.0.2.9:443'')) Millisecond)\<rparr>]"
    using announcementPkt_relays [where magic = "0x9D79BC40" and my = id_B
        and addrs = "[''tcp://0.0.0.0:22000'']"
        and rl = "[''relay://192.0.2.8:443'', ''relay://192.0.2.9:443'']"
        and RS = example_RelayStatus and d = 0]
    by (simp add: example_RelayStatus_def)
  show ?thesis using h l r by simp
qed

text \<open>
  For every measured duration the claim does not hold: a latency of 2^31
  milliseconds is announced as \<open>-2147483648\<close>.
\<close>

theorem latency_negative_counterexample:
  "example_RelayStatus ''relay://192.0.2.10:443'' = (2147483648000000, True) \<and>
   Relays (This (announcementPkt 0x9D79BC40 id_B [] [''relay://192.0.2.10:443'']
                   example_RelayStatus)) =
     [\<lparr>URL = ''relay://192.0.2.10:443'', Latency = - 2147483648\<rparr>]"
  by (simp add: announcementPkt_def example_RelayStatus_def Millisecond_def int32_def quo_def)

subsection \<open>Address helpers\<close>

text \<open>
  Claim C2 says that \<open>addrToAddr\<close> renders the port as a decimal number. The code
  formats the port with the verb \<open>%c\<close>, which prints the character with that
  code point, where \<open>registerDevice\<close> formats a port with \<open>%d\<close>. For the
  address 192.0.2.5 with port 22000 the result is \<open>192.0.2.5:\<close> followed by the
  three bytes of U+55F0 in UTF-8, not \<open>192.0.2.5:22000\<close>; for no IP and port
  22000 it is a colon and the same three bytes, not \<open>:22000\<close>.
\<close>

theorem addrToAddr_port_as_character:
  "addrToAddr \<lparr>IP = [192, 0, 2, 5], Port = 22000, Zone = []\<rparr> =
     ''192.0.2.5:'' @ [CHR 0xE5, CHR 0x97, CHR 0xB0] \<and>
   addrToAddr \<lparr>IP = [192, 0, 2, 5], Port = 22000, Zone = []\<rparr> \<noteq> ''192.0.2.5:22000'' \<and>
   addrToAddr \<lparr>IP = [], Port = 22000, Zone = []\<rparr> = '':'' @ [CHR 0xE5, CHR 0x97, CHR 0xB0] \<and>
   addrToAddr \<lparr>IP = [], Port = 22000, Zone = []\<rparr> \<noteq> '':22000'' \<and>
   fmt_d 22000 = ''22000''"
proof -
  have u: "\<not> IsUnspecified [192, 0, 2, 5]"
    by code_simp
  have a: "addrToAddr \<lparr>IP = [192, 0, 2, 5], Port = 22000, Zone = []\<rparr> =
     ''192.0.2.5:'' @ [CHR 0xE5, CHR 0x97, CHR 0xB0]"
    using u by (simp add: addrToAddr_def To4_def IP_String_example fmt_c_22000)
  have b: "addrToAddr \<lparr>IP = [], Port = 22000, Zone = []\<rparr> = '':'' @ [CHR 0xE5, CHR 0x97, CHR 0xB0]"
    by (simp add: addrToAddr_def fmt_c_22000)
  show ?thesis
    unfolding a b by (simp add: fmt_d_22000)
qed

end
